theory Spec2Isabelle
  imports Main
begin

section \<open>The checkout form: values, brands, formatting\<close>

text \<open>
  The component lives in \<^verbatim>\<open>src/components/blocks/CheckoutForm/index.tsx\<close>. It keeps four
  fields, each a string or \<^verbatim>\<open>null\<close>, validates them with a Joi object schema and hands
  them to the caller's \<^verbatim>\<open>onSuccess\<close> on submit.

  A value that flows through a Joi rule is a JavaScript value: a string, \<^verbatim>\<open>null\<close>, or
  \<^verbatim>\<open>undefined\<close> (what a custom rule returns when it falls off its end).
\<close>

datatype jsval = Undefined | Null | Str string

text \<open>\<^verbatim>\<open>if (value)\<close>: of the values above only a non-empty string is truthy.\<close>

fun truthy :: "jsval \<Rightarrow> bool" where
  "truthy (Str s) = (s \<noteq> [])"
| "truthy Null = False"
| "truthy Undefined = False"

text \<open>\<^verbatim>\<open>TypeCheckoutFormDefaultValues\<close> and \<^verbatim>\<open>defaultState\<close> (lines 43 to 63).\<close>

record FormValues =
  email :: "string option"
  card_number :: "string option"
  card_expire :: "string option"
  cvv :: "string option"

definition defaultState :: FormValues where
  "defaultState = \<lparr>email = None, card_number = None, card_expire = None, cvv = None\<rparr>"

definition js_of :: "string option \<Rightarrow> jsval" where
  "js_of v = (case v of None \<Rightarrow> Null | Some s \<Rightarrow> Str s)"

subsection \<open>Card brand detection\<close>

datatype CardBrand = Visa | Mastercard | Unknown

definition isDigit :: "char \<Rightarrow> bool" where
  "isDigit c = (c \<in> set ''0123456789'')"

definition digitVal :: "char \<Rightarrow> nat" where
  "digitVal c = of_char c - 48"

text \<open>The decimal number written by a string of digits, most significant digit first.\<close>

definition decimal :: "string \<Rightarrow> nat" where
  "decimal s = foldl (\<lambda>n c. 10 * n + digitVal c) 0 s"

text \<open>The number written by the first \<open>k\<close> characters, when there are \<open>k\<close> of them and all
  are digits.\<close>

definition leadingNumber :: "nat \<Rightarrow> string \<Rightarrow> nat option" where
  "leadingNumber k s =
     (if k \<le> length s \<and> list_all isDigit (take k s) then Some (decimal (take k s)) else None)"

text \<open>
  Modelled from the spec: \<^verbatim>\<open>parseCardType\<close> is imported from the package
  \<^verbatim>\<open>creditcardutils\<close> (line 12), whose source is not part of \<^verbatim>\<open>src/\<close>. The spec:
  Visa for a leading digit 4; Mastercard for leading digits within 51 to 55 or 2221 to
  2720; Unknown for anything else, including null and empty input. The component compares
  the result with the tags \<^verbatim>\<open>"visa"\<close> and \<^verbatim>\<open>"mastercard"\<close>.
\<close>

definition parseCardType :: "jsval \<Rightarrow> CardBrand" where
  "parseCardType v =
     (case v of
        Str s \<Rightarrow>
          (if take 1 s = ''4'' then Visa
           else if (case leadingNumber 2 s of Some p \<Rightarrow> 51 \<le> p \<and> p \<le> 55 | None \<Rightarrow> False)
             then Mastercard
           else if (case leadingNumber 4 s of Some p \<Rightarrow> 2221 \<le> p \<and> p \<le> 2720 | None \<Rightarrow> False)
             then Mastercard
           else Unknown)
      | Null \<Rightarrow> Unknown
      | Undefined \<Rightarrow> Unknown)"

subsection \<open>Card number formatting\<close>

text \<open>A space after every fourth character that has a successor.\<close>

fun group4 :: "string \<Rightarrow> string" where
  "group4 (a # b # c # d # e # rest) = a # b # c # d # CHR '' '' # group4 (e # rest)"
| "group4 xs = xs"

text \<open>
  Modelled from the spec: \<^verbatim>\<open>formatCardNumber\<close> is imported from the package
  \<^verbatim>\<open>creditcardutils\<close> (line 10), whose source is not part of \<^verbatim>\<open>src/\<close>. The spec: strips
  non-digit characters, re-inserts a delimiter every 4 digits (the pattern
  \<^verbatim>\<open>1234 1234 1234 1234\<close>), caps the digit count at 16.
\<close>

definition formatCardNumber :: "string \<Rightarrow> string" where
  "formatCardNumber raw = group4 (take 16 (filter isDigit raw))"

section \<open>The validation schema\<close>

text \<open>
  The error codes the schema can raise: Joi's own for a required string with an email or a
  length rule, and the four that the custom rules raise through \<^verbatim>\<open>helpers.error\<close>.
\<close>

datatype code =
    any_required | string_base | string_empty | string_email | string_length
  | string_cardNumber | string_cardType | string_cardExpire | string_invalid

text \<open>
  What the component takes from outside this file. Joi's validation preference
  \<^verbatim>\<open>abortEarly\<close> is chosen by the validator hook, and Joi's built-in message templates apply
  to a code that the schema's \<^verbatim>\<open>messages\<close> table leaves out; the email grammar is Joi's, the
  card checks are those of \<^verbatim>\<open>creditcardutils\<close>. None of them is fixed here: every theorem
  below holds for all of them.
\<close>

record ('m, 'y) libs =
  abortEarly :: bool
  defaultMessage :: "string \<Rightarrow> code \<Rightarrow> string"
  isEmail :: "string \<Rightarrow> bool"
  validateCardNumber :: "string \<Rightarrow> bool"
  parseCardExpiry :: "string \<Rightarrow> 'm \<times> 'y"
  validateCardExpiry :: "'m \<Rightarrow> 'y \<Rightarrow> bool"
  validateCardCVC :: "string \<Rightarrow> bool"
  formatCardExpiry :: "string \<Rightarrow> string"

subsection \<open>Joi: a required string with rules\<close>

text \<open>A rule returns the value to pass on, or an error code.\<close>

type_synonym rule = "jsval \<Rightarrow> code + jsval"

text \<open>
  The rules run in the order the schema chains them. A rule that fails adds its code; with
  \<^verbatim>\<open>abortEarly\<close> the run stops there, without it the next rule sees the value unchanged.
\<close>

fun run_rules :: "bool \<Rightarrow> rule list \<Rightarrow> jsval \<Rightarrow> code list" where
  "run_rules ab [] v = []"
| "run_rules ab (r # rs) v =
     (case r v of
        Inl c \<Rightarrow> (if ab then [c] else c # run_rules ab rs v)
      | Inr v' \<Rightarrow> run_rules ab rs v')"

text \<open>
  \<^verbatim>\<open>Joi.string()...required()\<close>, as the Joi library (a dependency, not part of the
  repository) documents it: \<^verbatim>\<open>undefined\<close> is missing (\<^verbatim>\<open>any.required\<close>), anything but a
  string, \<^verbatim>\<open>null\<close> included, is \<^verbatim>\<open>string.base\<close>, and the empty string is
  \<^verbatim>\<open>string.empty\<close>; each of these ends the validation of the value. Only then do the rules
  run. The schema's own \<^verbatim>\<open>messages\<close> tables name \<^verbatim>\<open>string.empty\<close> and
  \<^verbatim>\<open>any.required\<close> for every field.
\<close>

definition string_required :: "bool \<Rightarrow> rule list \<Rightarrow> jsval \<Rightarrow> code list" where
  "string_required ab rules v =
     (case v of
        Undefined \<Rightarrow> [any_required]
      | Null \<Rightarrow> [string_base]
      | Str s \<Rightarrow> (if s = [] then [string_empty] else run_rules ab rules v))"

text \<open>Joi's \<^verbatim>\<open>email\<close> and \<^verbatim>\<open>length\<close> rules; both only ever see a non-empty string.\<close>

fun rule_email :: "('m, 'y) libs \<Rightarrow> rule" where
  "rule_email L (Str s) = (if isEmail L s then Inr (Str s) else Inl string_email)"
| "rule_email L v = Inr v"

fun rule_length :: "nat \<Rightarrow> rule" where
  "rule_length n (Str s) = (if length s = n then Inr (Str s) else Inl string_length)"
| "rule_length n v = Inr v"

text \<open>The message of a code: the schema's \<^verbatim>\<open>messages\<close> table first, Joi's template
  otherwise.\<close>

definition message :: "('m, 'y) libs \<Rightarrow> string \<Rightarrow> (code \<times> string) list \<Rightarrow> code \<Rightarrow> string" where
  "message L label table c =
     (case map_of table c of Some m \<Rightarrow> m | None \<Rightarrow> defaultMessage L label c)"

subsection \<open>The four fields (lines 76 to 147)\<close>

text \<open>\<^verbatim>\<open>email\<close>, lines 77 to 86.\<close>

definition email_messages :: "(code \<times> string) list" where
  "email_messages =
     [(string_empty, ''Required''),
      (string_email, ''Must be a valid email''),
      (any_required, ''Required'')]"

definition email_errors :: "('m, 'y) libs \<Rightarrow> string option \<Rightarrow> string list" where
  "email_errors L v =
     map (message L ''email'' email_messages)
       (string_required (abortEarly L) [rule_email L] (js_of v))"

text \<open>\<^verbatim>\<open>card_number\<close>, lines 87 to 113: the two custom rules, in their order.\<close>

fun card_number_custom1 :: "('m, 'y) libs \<Rightarrow> rule" where
  "card_number_custom1 L (Str s) =
     (if s \<noteq> [] then
        (if \<not> validateCardNumber L s then Inl string_cardNumber else Inr (Str s))
      else Inr (Str s))"
| "card_number_custom1 L v = Inr v"

definition card_number_custom2 :: rule where
  "card_number_custom2 v =
     (if truthy v then
        (let cardType = parseCardType v in
           if \<not> (cardType = Visa \<or> cardType = Mastercard) then Inl string_cardType
           else Inr v)
      else Inr Undefined)"

definition card_number_messages :: "(code \<times> string) list" where
  "card_number_messages =
     [(string_empty, ''Required''),
      (string_cardNumber, ''Must be a valid card''),
      (string_cardType, ''Must be Visa / Master card type''),
      (any_required, ''Required'')]"

definition card_number_errors :: "('m, 'y) libs \<Rightarrow> string option \<Rightarrow> string list" where
  "card_number_errors L v =
     map (message L ''card_number'' card_number_messages)
       (string_required (abortEarly L) [card_number_custom1 L, card_number_custom2] (js_of v))"

text \<open>\<^verbatim>\<open>card_expire\<close>, lines 114 to 129.\<close>

fun card_expire_custom :: "('m, 'y) libs \<Rightarrow> rule" where
  "card_expire_custom L (Str s) =
     (if s \<noteq> [] then
        (case parseCardExpiry L s of
           (month, year) \<Rightarrow>
             if \<not> validateCardExpiry L month year then Inl string_cardExpire else Inr (Str s))
      else Inr (Str s))"
| "card_expire_custom L v = Inr v"

definition card_expire_messages :: "(code \<times> string) list" where
  "card_expire_messages =
     [(string_empty, ''Required''),
      (string_cardExpire, ''Must be valid expiration date''),
      (any_required, ''Required'')]"

definition card_expire_errors :: "('m, 'y) libs \<Rightarrow> string option \<Rightarrow> string list" where
  "card_expire_errors L v =
     map (message L ''card_expire'' card_expire_messages)
       (string_required (abortEarly L) [card_expire_custom L] (js_of v))"

text \<open>\<^verbatim>\<open>cvv\<close>, lines 130 to 146: the length rule, then the custom rule.\<close>

fun cvv_custom :: "('m, 'y) libs \<Rightarrow> rule" where
  "cvv_custom L (Str s) =
     (if s \<noteq> [] then
        (if \<not> validateCardCVC L s then Inl string_invalid else Inr (Str s))
      else Inr (Str s))"
| "cvv_custom L v = Inr v"

definition cvv_messages :: "(code \<times> string) list" where
  "cvv_messages =
     [(string_empty, ''Required''),
      (string_invalid, ''Must be valid CVV''),
      (string_length, ''Maximum 3 digits''),
      (any_required, ''Required'')]"

definition cvv_errors :: "('m, 'y) libs \<Rightarrow> string option \<Rightarrow> string list" where
  "cvv_errors L v =
     map (message L ''cvv'' cvv_messages)
       (string_required (abortEarly L) [rule_length 3, cvv_custom L] (js_of v))"

subsection \<open>The validation result\<close>

datatype field = Email | CardNumber | CardExpire | Cvv

definition validate :: "('m, 'y) libs \<Rightarrow> FormValues \<Rightarrow> field \<Rightarrow> string list" where
  "validate L d f =
     (case f of
        Email \<Rightarrow> email_errors L (email d)
      | CardNumber \<Rightarrow> card_number_errors L (card_number d)
      | CardExpire \<Rightarrow> card_expire_errors L (card_expire d)
      | Cvv \<Rightarrow> cvv_errors L (cvv d))"

text \<open>
  Modelled from the spec: the validator hook \<^verbatim>\<open>useValidator\<close> comes from the repository's
  package \<^verbatim>\<open>@packages/react-joi\<close> (line 19), which is not part of \<^verbatim>\<open>src/\<close>. The spec: the
  validation result maps each field to its error messages and carries the flag
  \<open>any_invalid\<close> (\<^verbatim>\<open>state.$auto_invalid\<close> in the component), true iff any field's error list
  is non-empty; every change of the form values recomputes the result for all fields.
\<close>

definition any_invalid :: "(field \<Rightarrow> string list) \<Rightarrow> bool" where
  "any_invalid r = list_ex (\<lambda>f. r f \<noteq> []) [Email, CardNumber, CardExpire, Cvv]"

record vstate =
  data :: FormValues
  errors :: "field \<Rightarrow> string list"
  auto_invalid :: bool

definition setData :: "('m, 'y) libs \<Rightarrow> FormValues \<Rightarrow> vstate" where
  "setData L d = \<lparr>data = d, errors = validate L d, auto_invalid = any_invalid (validate L d)\<rparr>"

section \<open>The component\<close>

text \<open>The submit button, line 279: \<^verbatim>\<open>disabled={state.$auto_invalid || loading}\<close>.\<close>

definition submit_disabled :: "vstate \<Rightarrow> bool \<Rightarrow> bool" where
  "submit_disabled st loading = (auto_invalid st \<or> loading)"

text \<open>\<^verbatim>\<open>onSubmit\<close>, lines 159 to 163: what the handler does, in order.\<close>

datatype effect = PreventDefault | OnSuccess FormValues

definition onSubmit :: "vstate \<Rightarrow> effect list" where
  "onSubmit st = [PreventDefault, OnSuccess (data st)]"

text \<open>
  The component's state: the models of \<^verbatim>\<open>useModels\<close>, the validator's state, and the
  effects of the submissions so far. An input event changes one model (the card number and
  the expiry through \<^verbatim>\<open>formatter\<close>, lines 165 to 176), and the effect of lines 179 to 181
  then copies the models into the validator. A submit event of the form runs
  \<^verbatim>\<open>onSubmit\<close>.
\<close>

datatype event =
    ChangeEmail string | ChangeCardNumber string | ChangeCardExpire string | ChangeCvv string
  | SubmitForm

record component =
  models :: FormValues
  state :: vstate
  calls :: "effect list"

text \<open>
  Modelled from the spec: \<^verbatim>\<open>useModels\<close> comes from the repository's package
  \<^verbatim>\<open>@packages/react-use-models\<close> (line 20), which is not part of \<^verbatim>\<open>src/\<close>. The spec: the
  model store maps each field name to a string or null and is changed field by field on
  user input.
\<close>

fun updateModel :: "component \<Rightarrow> field \<Rightarrow> string \<Rightarrow> component" where
  "updateModel c Email x = c\<lparr>models := (models c)\<lparr>email := Some x\<rparr>\<rparr>"
| "updateModel c CardNumber x = c\<lparr>models := (models c)\<lparr>card_number := Some x\<rparr>\<rparr>"
| "updateModel c CardExpire x = c\<lparr>models := (models c)\<lparr>card_expire := Some x\<rparr>\<rparr>"
| "updateModel c Cvv x = c\<lparr>models := (models c)\<lparr>cvv := Some x\<rparr>\<rparr>"

text \<open>Lines 179 to 181: \<^verbatim>\<open>useEffect(() => { setData(models) }, [models])\<close>.\<close>

definition sync :: "('m, 'y) libs \<Rightarrow> component \<Rightarrow> component" where
  "sync L c = c\<lparr>state := setData L (models c)\<rparr>"

fun handle :: "('m, 'y) libs \<Rightarrow> component \<Rightarrow> event \<Rightarrow> component" where
  "handle L c (ChangeEmail x) = sync L (updateModel c Email x)"
| "handle L c (ChangeCardNumber x) = sync L (updateModel c CardNumber (formatCardNumber x))"
| "handle L c (ChangeCardExpire x) = sync L (updateModel c CardExpire (formatCardExpiry L x))"
| "handle L c (ChangeCvv x) = sync L (updateModel c Cvv x)"
| "handle L c SubmitForm = c\<lparr>calls := calls c @ onSubmit (state c)\<rparr>"

definition mount :: "('m, 'y) libs \<Rightarrow> component" where
  "mount L = \<lparr>models = defaultState, state = setData L defaultState, calls = []\<rparr>"

definition run :: "('m, 'y) libs \<Rightarrow> event list \<Rightarrow> component" where
  "run L evs = foldl (handle L) (mount L) evs"

section \<open>Sample collaborators\<close>

text \<open>
  A concrete set of collaborators, to run the component on concrete inputs: the Luhn
  checksum over the digits of a number written with or without spaces, a three or four
  digit CVC, an expiry of a month and a two digit year, an email with an \<open>@\<close>. The
  theorems below are proved for every set of collaborators; this one instantiates them.
\<close>

fun luhn_sum :: "bool \<Rightarrow> nat list \<Rightarrow> nat" where
  "luhn_sum dbl [] = 0"
| "luhn_sum dbl (d # ds) =
     (if dbl then (if 9 < 2 * d then 2 * d - 9 else 2 * d) else d) + luhn_sum (\<not> dbl) ds"

definition luhn :: "string \<Rightarrow> bool" where
  "luhn s =
     (let ds = filter (\<lambda>c. c \<noteq> CHR '' '') s
      in ds \<noteq> [] \<and> list_all isDigit ds \<and> luhn_sum False (rev (map digitVal ds)) mod 10 = 0)"

definition sample_libs :: "(nat, nat) libs" where
  "sample_libs =
     \<lparr>abortEarly = False,
      defaultMessage = (\<lambda>label c. label @ '' is not valid''),
      isEmail = (\<lambda>s. CHR ''@'' \<in> set s),
      validateCardNumber = luhn,
      parseCardExpiry =
        (\<lambda>s. (decimal (take 2 (filter isDigit s)), decimal (drop 2 (filter isDigit s)))),
      validateCardExpiry = (\<lambda>month year. 1 \<le> month \<and> month \<le> 12 \<and> 27 \<le> year),
      validateCardCVC = (\<lambda>s. list_all isDigit s \<and> (length s = 3 \<or> length s = 4)),
      formatCardExpiry = (\<lambda>s. s)\<rparr>"

text \<open>The spec's scenario: the four fields typed in, and the form values that result.\<close>

definition filled :: FormValues where
  "filled =
     \<lparr>email = Some ''a@b.com'', card_number = Some ''4111 1111 1111 1111'',
      card_expire = Some ''12/29'', cvv = Some ''123''\<rparr>"

definition typing :: "event list" where
  "typing =
     [ChangeEmail ''a@b.com'', ChangeCardNumber ''4111111111111111'',
      ChangeCardExpire ''12/29'', ChangeCvv ''123'']"

section \<open>Facts about the formatter\<close>

lemma not_digit_space: "\<not> isDigit (CHR '' '')"
  by (simp add: isDigit_def)

lemma filter_group4: "list_all isDigit xs \<Longrightarrow> filter isDigit (group4 xs) = xs"
  by (induction xs rule: group4.induct) (simp_all add: not_digit_space)

lemma nth_skip5: "(a # b # c # d # e # xs) ! (j + 5) = xs ! j"
  by (simp add: numeral_eq_Suc)

lemma mod5_skip: "((j + 5) mod 5 = 4) = (j mod 5 = (4::nat))"
  by simp

lemma short_no_space:
  "list_all isDigit xs \<Longrightarrow> length xs \<le> 4 \<Longrightarrow> i < length xs \<Longrightarrow>
     (xs ! i = CHR '' '') = (i mod 5 = 4)"
proof -
  assume a: "list_all isDigit xs" "length xs \<le> 4" "i < length xs"
  then have "isDigit (xs ! i)" by (simp add: list_all_length)
  then have "xs ! i \<noteq> CHR '' ''" using not_digit_space by auto
  moreover have "i mod 5 \<noteq> 4" using a by simp
  ultimately show ?thesis by simp
qed

lemma group4_space:
  "list_all isDigit xs \<Longrightarrow> i < length (group4 xs) \<Longrightarrow>
     (group4 xs ! i = CHR '' '') = (i mod 5 = 4)"
proof (induction xs arbitrary: i rule: group4.induct)
  case (1 a b c d e rest)
  have dig: "isDigit a" "isDigit b" "isDigit c" "isDigit d" "list_all isDigit (e # rest)"
    using "1.prems"(1) by simp_all
  have ns: "a \<noteq> CHR '' ''" "b \<noteq> CHR '' ''" "c \<noteq> CHR '' ''" "d \<noteq> CHR '' ''"
    using dig not_digit_space by auto
  show ?case
  proof (cases "i < 5")
    case True
    then consider "i = 0" | "i = 1" | "i = 2" | "i = 3" | "i = 4" by arith
    then show ?thesis
      by cases (use ns in simp_all)
  next
    case False
    define j where "j = i - 5"
    have i: "i = j + 5" using False by (simp add: j_def)
    with "1.prems"(2) have "j < length (group4 (e # rest))" by simp
    with dig(5) have "(group4 (e # rest) ! j = CHR '' '') = (j mod 5 = 4)"
      by (rule "1.IH")
    then show ?thesis unfolding i group4.simps(1) nth_skip5 mod5_skip .
  qed
qed (simp_all only: group4.simps, (rule short_no_space; simp)+)

lemma group4_chars:
  "list_all isDigit xs \<Longrightarrow> c \<in> set (group4 xs) \<Longrightarrow> isDigit c \<or> c = CHR '' ''"
  by (induction xs rule: group4.induct) auto

lemma digits_formatCardNumber:
  "filter isDigit (formatCardNumber x) = take 16 (filter isDigit x)"
proof -
  have "list_all isDigit (take 16 (filter isDigit x))"
    by (auto simp: list_all_iff dest: in_set_takeD)
  then show ?thesis
    by (simp add: formatCardNumber_def filter_group4)
qed

section \<open>Facts about brand detection\<close>

lemma digitVal_le: "isDigit c \<Longrightarrow> digitVal c \<le> 9"
  by (auto simp: isDigit_def digitVal_def)

lemma digitVal_4: "digitVal (CHR ''4'') = 4"
  by (simp add: digitVal_def)

lemma decimal2: "decimal [a, b] = 10 * digitVal a + digitVal b"
  by (simp add: decimal_def)

lemma decimal4:
  "decimal [a, b, c, d] = 1000 * digitVal a + 100 * digitVal b + 10 * digitVal c + digitVal d"
  by (simp add: decimal_def)

lemma length2E: "length p = 2 \<Longrightarrow> \<exists>a b. p = [a, b]"
  by (cases p; simp; cases "tl p"; simp) 

lemma length4E: "length p = 4 \<Longrightarrow> \<exists>a b c d. p = [a, b, c, d]"
  by (simp add: numeral_eq_Suc length_Suc_conv) blast

lemma mc2_not4:
  assumes "list_all isDigit [a, b]" "51 \<le> decimal [a, b]" "decimal [a, b] \<le> 55"
  shows "a \<noteq> CHR ''4''"
proof
  assume "a = CHR ''4''"
  moreover have "digitVal b \<le> 9" using assms(1) by (simp add: digitVal_le)
  ultimately show False using assms(2) by (simp add: decimal2 digitVal_4)
qed

lemma mc4_not4:
  assumes "list_all isDigit [a, b, c, d]" "2221 \<le> decimal [a, b, c, d]"
    "decimal [a, b, c, d] \<le> 2720"
  shows "a \<noteq> CHR ''4''"
proof
  assume "a = CHR ''4''"
  then show False using assms(3) by (simp add: decimal4 digitVal_4)
qed

lemma parse_visa: "(parseCardType v = Visa) = (\<exists>r. v = Str (CHR ''4'' # r))"
proof (cases v)
  case (Str s)
  show ?thesis
  proof (cases s)
    case Nil
    with Str show ?thesis by (simp add: parseCardType_def leadingNumber_def)
  next
    case (Cons a r)
    with Str show ?thesis by (auto simp: parseCardType_def split: option.splits)
  qed
qed (simp_all add: parseCardType_def)

lemma parse_mc_intro2:
  assumes "list_all isDigit p" "length p = 2" "51 \<le> decimal p" "decimal p \<le> 55"
  shows "parseCardType (Str (p @ r)) = Mastercard"
proof -
  obtain a b where p: "p = [a, b]" using length2E [OF assms(2)] by blast
  have "a \<noteq> CHR ''4''" using mc2_not4 assms unfolding p by blast
  moreover have "leadingNumber 2 (p @ r) = Some (decimal p)"
    using assms(1,2) by (simp add: leadingNumber_def)
  ultimately show ?thesis using assms(3,4) by (simp add: parseCardType_def p)
qed

lemma parse_mc_intro4:
  assumes "list_all isDigit p" "length p = 4" "2221 \<le> decimal p" "decimal p \<le> 2720"
  shows "parseCardType (Str (p @ r)) = Mastercard"
proof -
  obtain a b c d where p: "p = [a, b, c, d]" using length4E [OF assms(2)] by blast
  have "a \<noteq> CHR ''4''" using mc4_not4 assms unfolding p by blast
  moreover have "leadingNumber 4 (p @ r) = Some (decimal p)"
    using assms(1,2) by (simp add: leadingNumber_def)
  ultimately show ?thesis using assms(3,4) by (simp add: parseCardType_def p)
qed

lemma leadingNumber_SomeD:
  "leadingNumber k s = Some n \<Longrightarrow>
     s = take k s @ drop k s \<and> length (take k s) = k \<and> list_all isDigit (take k s)
       \<and> n = decimal (take k s)"
  by (auto simp: leadingNumber_def split: if_splits)

lemma parse_mc_elim:
  assumes "parseCardType v = Mastercard"
  shows "\<exists>p r. v = Str (p @ r) \<and> list_all isDigit p \<and>
           (length p = 2 \<and> 51 \<le> decimal p \<and> decimal p \<le> 55 \<or>
            length p = 4 \<and> 2221 \<le> decimal p \<and> decimal p \<le> 2720)"
proof (cases v)
  case (Str s)
  from assms Str consider
      n where "leadingNumber 2 s = Some n" "51 \<le> n" "n \<le> 55"
    | n where "leadingNumber 4 s = Some n" "2221 \<le> n" "n \<le> 2720"
    by (auto simp: parseCardType_def split: if_splits option.splits)
  then show ?thesis
  proof cases
    case 1
    from leadingNumber_SomeD [OF 1(1)] 1(2,3) Str show ?thesis by blast
  next
    case 2
    from leadingNumber_SomeD [OF 2(1)] 2(2,3) Str show ?thesis by blast
  qed
qed (use assms in \<open>simp_all add: parseCardType_def\<close>)

section \<open>Facts about the schema and the component\<close>

lemma parseCardType_empty: "parseCardType (Str []) = Unknown"
  by (simp add: parseCardType_def leadingNumber_def)

lemma email_errors_Nil:
  "(email_errors L v = []) = (\<exists>e. v = Some e \<and> e \<noteq> [] \<and> isEmail L e)"
  by (cases v) (auto simp: email_errors_def string_required_def js_of_def)

lemma card_number_errors_Nil:
  "(card_number_errors L v = []) =
     (\<exists>n. v = Some n \<and> n \<noteq> [] \<and> validateCardNumber L n \<and>
        (parseCardType (Str n) = Visa \<or> parseCardType (Str n) = Mastercard))"
  by (cases v)
    (auto simp: card_number_errors_def string_required_def js_of_def card_number_custom2_def
      split: if_splits)

lemma card_expire_errors_Nil:
  "(card_expire_errors L v = []) =
     (\<exists>x. v = Some x \<and> x \<noteq> [] \<and>
        (case parseCardExpiry L x of (month, year) \<Rightarrow> validateCardExpiry L month year))"
  by (cases v)
    (auto simp: card_expire_errors_def string_required_def js_of_def split: prod.splits)

lemma cvv_errors_Nil:
  "(cvv_errors L v = []) = (\<exists>s. v = Some s \<and> length s = 3 \<and> validateCardCVC L s)"
  by (cases v) (auto simp: cvv_errors_def string_required_def js_of_def)

lemma any_invalid_iff: "any_invalid r = (\<exists>f. r f \<noteq> [])"
proof
  assume "any_invalid r"
  then show "\<exists>f. r f \<noteq> []" by (auto simp: any_invalid_def)
next
  assume "\<exists>f. r f \<noteq> []"
  then obtain f where "r f \<noteq> []" by blast
  then show "any_invalid r" by (cases f) (simp_all add: any_invalid_def)
qed

lemma handle_synced:
  "state c = setData L (models c) \<Longrightarrow> state (handle L c e) = setData L (models (handle L c e))"
  by (cases e) (simp_all add: sync_def)

lemma run_snoc: "run L (evs @ [e]) = handle L (run L evs) e"
  by (simp add: run_def)

lemma run_synced: "state (run L evs) = setData L (models (run L evs))"
proof (induction evs rule: rev_induct)
  case Nil
  show ?case by (simp add: run_def mount_def)
next
  case (snoc e evs)
  then show ?case unfolding run_snoc by (rule handle_synced)
qed

lemma valid_fields:
  assumes "\<not> any_invalid (validate L d)"
  shows "\<exists>e n x v. d = \<lparr>email = Some e, card_number = Some n, card_expire = Some x, cvv = Some v\<rparr>
     \<and> e \<noteq> [] \<and> isEmail L e
     \<and> n \<noteq> [] \<and> validateCardNumber L n
     \<and> (parseCardType (Str n) = Visa \<or> parseCardType (Str n) = Mastercard)
     \<and> x \<noteq> [] \<and> (case parseCardExpiry L x of (month, year) \<Rightarrow> validateCardExpiry L month year)
     \<and> length v = 3 \<and> validateCardCVC L v"
proof -
  from assms have all: "\<And>f. validate L d f = []" by (simp add: any_invalid_iff)
  from all [of Email] obtain e where e: "email d = Some e" "e \<noteq> []" "isEmail L e"
    by (auto simp: validate_def email_errors_Nil)
  from all [of CardNumber] obtain n where n: "card_number d = Some n" "n \<noteq> []"
    "validateCardNumber L n" "parseCardType (Str n) = Visa \<or> parseCardType (Str n) = Mastercard"
    by (auto simp: validate_def card_number_errors_Nil)
  from all [of CardExpire] obtain x where x: "card_expire d = Some x" "x \<noteq> []"
    "case parseCardExpiry L x of (month, year) \<Rightarrow> validateCardExpiry L month year"
    by (auto simp: validate_def card_expire_errors_Nil)
  from all [of Cvv] obtain v where v: "cvv d = Some v" "length v = 3" "validateCardCVC L v"
    by (auto simp: validate_def cvv_errors_Nil)
  have "d = \<lparr>email = Some e, card_number = Some n, card_expire = Some x, cvv = Some v\<rparr>"
    using e(1) n(1) x(1) v(1) by (cases d) simp
  then show ?thesis
    using e(2,3) n(2,3,4) x(2,3) v(2,3) by (intro exI conjI)
qed

lemma rejected_invalid: "validate L d f \<noteq> [] \<Longrightarrow> any_invalid (validate L d)"
  by (auto simp: any_invalid_iff)

section \<open>The sample collaborators on concrete inputs\<close>

lemma sample_cvc_012: "validateCardCVC sample_libs ''012''"
  by (simp add: sample_libs_def isDigit_def)

lemma sample_models: "models (run sample_libs typing) = filled"
  by (simp add: run_def typing_def mount_def sync_def defaultState_def filled_def
      formatCardNumber_def isDigit_def sample_libs_def)

lemma sample_filled_valid: "\<not> any_invalid (validate sample_libs filled)"
proof -
  have "validate sample_libs filled Email = []"
    by (simp add: validate_def email_errors_Nil filled_def sample_libs_def)
  moreover have "validate sample_libs filled CardNumber = []"
    by (simp add: validate_def card_number_errors_Nil filled_def sample_libs_def luhn_def
        isDigit_def digitVal_def parseCardType_def)
  moreover have "validate sample_libs filled CardExpire = []"
    by (simp add: validate_def card_expire_errors_Nil filled_def sample_libs_def
        isDigit_def digitVal_def decimal_def)
  moreover have "validate sample_libs filled Cvv = []"
    by (simp add: validate_def cvv_errors_Nil filled_def sample_libs_def isDigit_def)
  ultimately have "validate sample_libs filled f = []" for f
    by (cases f) simp_all
  then show ?thesis by (simp add: any_invalid_iff)
qed

lemma sample_format:
  "formatCardNumber ''4111-1111 1111x11112222'' = ''4111 1111 1111 1111''"
  by (simp add: formatCardNumber_def isDigit_def)

lemma sample_luhn_visa: "validateCardNumber sample_libs ''4111111111111111''"
  by (simp add: sample_libs_def luhn_def isDigit_def digitVal_def)

lemma sample_visa: "parseCardType (Str ''4111111111111111'') = Visa"
  by (simp add: parseCardType_def)

lemma sample_luhn_1234: "\<not> validateCardNumber sample_libs ''1234''"
  by (simp add: sample_libs_def luhn_def isDigit_def digitVal_def)

lemma sample_luhn_discover: "validateCardNumber sample_libs ''6011000000000004''"
  by (simp add: sample_libs_def luhn_def isDigit_def digitVal_def)

lemma sample_discover: "parseCardType (Str ''6011000000000004'') = Unknown"
  by (simp add: parseCardType_def leadingNumber_def isDigit_def digitVal_def decimal_def)

section \<open>The claims\<close>

text \<open>
  C1. A card number that the checksum accepts and whose brand is Visa or Mastercard has an
  empty error list for the field \<open>card_number\<close>, whatever the other fields hold, for every
  checksum function and with or without \<^verbatim>\<open>abortEarly\<close>. The brand is that of
  \<open>parseCardType\<close> above, for which the empty string is of no brand.
\<close>

theorem card_number_accepted:
  assumes "validateCardNumber L n"
    and "parseCardType (Str n) = Visa \<or> parseCardType (Str n) = Mastercard"
    and "card_number d = Some n"
  shows "validate L d CardNumber = []"
proof -
  from assms(2) have "n \<noteq> []" using parseCardType_empty by auto
  with assms show ?thesis by (simp add: validate_def card_number_errors_Nil)
qed

theorem card_number_accepted_witness:
  "validateCardNumber sample_libs ''4111111111111111''
   \<and> parseCardType (Str ''4111111111111111'') = Visa
   \<and> validate sample_libs (defaultState\<lparr>card_number := Some ''4111111111111111''\<rparr>) CardNumber = []"
  using card_number_accepted [of sample_libs "''4111111111111111''"
      "defaultState\<lparr>card_number := Some ''4111111111111111''\<rparr>"]
    sample_luhn_visa sample_visa
  by simp

text \<open>
  C5. A non-empty card number that the checksum rejects has the message
  \<open>Must be a valid card\<close> in the error list of the field \<open>card_number\<close>, with or without
  \<^verbatim>\<open>abortEarly\<close>: the checksum is the first rule of the field.
\<close>

theorem card_number_checksum_error:
  assumes "n \<noteq> []" and "\<not> validateCardNumber L n" and "card_number d = Some n"
  shows "''Must be a valid card'' \<in> set (validate L d CardNumber)"
  using assms
  by (simp add: validate_def card_number_errors_def string_required_def js_of_def message_def
      card_number_messages_def)

theorem card_number_checksum_error_witness:
  "\<not> validateCardNumber sample_libs ''1234''
   \<and> ''Must be a valid card''
       \<in> set (validate sample_libs (defaultState\<lparr>card_number := Some ''1234''\<rparr>) CardNumber)"
  using card_number_checksum_error [of "''1234''" sample_libs
      "defaultState\<lparr>card_number := Some ''1234''\<rparr>"] sample_luhn_1234
  by simp

text \<open>
  C6. A non-empty card number that the checksum accepts and whose brand is neither Visa nor
  Mastercard has the message \<open>Must be Visa / Master card type\<close> in the error list of the
  field \<open>card_number\<close>.
\<close>

theorem card_number_brand_error:
  assumes "n \<noteq> []" and "validateCardNumber L n"
    and "parseCardType (Str n) \<noteq> Visa" and "parseCardType (Str n) \<noteq> Mastercard"
    and "card_number d = Some n"
  shows "''Must be Visa / Master card type'' \<in> set (validate L d CardNumber)"
  using assms
  by (simp add: validate_def card_number_errors_def string_required_def js_of_def message_def
      card_number_messages_def card_number_custom2_def)

theorem card_number_brand_error_witness:
  "validateCardNumber sample_libs ''6011000000000004''
   \<and> parseCardType (Str ''6011000000000004'') = Unknown
   \<and> ''Must be Visa / Master card type''
       \<in> set (validate sample_libs (defaultState\<lparr>card_number := Some ''6011000000000004''\<rparr>)
           CardNumber)"
  using card_number_brand_error [of "''6011000000000004''" sample_libs
      "defaultState\<lparr>card_number := Some ''6011000000000004''\<rparr>"]
    sample_luhn_discover sample_discover
  by simp

text \<open>
  C2. The claim: every submission event prevents the default action and calls
  \<^verbatim>\<open>onSuccess\<close> once with the current form values, all four of them non-null and valid,
  and the handler checks nothing itself. The handler indeed checks nothing, so the values it
  passes are whatever the validator holds: a submit event on the freshly mounted form, whose
  button is disabled, passes four nulls.
\<close>

theorem submit_without_check_counterexample:
  "submit_disabled (state (mount sample_libs)) False
   \<and> calls (handle sample_libs (mount sample_libs) SubmitForm) =
       [PreventDefault,
        OnSuccess \<lparr>email = None, card_number = None, card_expire = None, cvv = None\<rparr>]"
  by (simp add: mount_def onSubmit_def setData_def defaultState_def submit_disabled_def
      any_invalid_def validate_def email_errors_def string_required_def js_of_def)

text \<open>
  C2, as amended. In every state the component can reach, a submit event appends exactly
  \<^verbatim>\<open>preventDefault\<close> and one call of \<^verbatim>\<open>onSuccess\<close> with the validator's data, which are
  the current models, and changes neither the models nor the validator. When the submit
  button is enabled at that instant, all four fields are non-null and pass their checks.
\<close>

theorem submit_passes_snapshot:
  "calls (handle L (run L evs) SubmitForm) =
     calls (run L evs) @ [PreventDefault, OnSuccess (data (state (run L evs)))]
   \<and> models (handle L (run L evs) SubmitForm) = models (run L evs)
   \<and> state (handle L (run L evs) SubmitForm) = state (run L evs)
   \<and> data (state (run L evs)) = models (run L evs)
   \<and> (\<not> submit_disabled (state (run L evs)) loading \<longrightarrow>
        (\<exists>e n x v.
           data (state (run L evs)) =
             \<lparr>email = Some e, card_number = Some n, card_expire = Some x, cvv = Some v\<rparr>
           \<and> e \<noteq> [] \<and> isEmail L e
           \<and> n \<noteq> [] \<and> validateCardNumber L n
           \<and> (parseCardType (Str n) = Visa \<or> parseCardType (Str n) = Mastercard)
           \<and> x \<noteq> []
           \<and> (case parseCardExpiry L x of (month, year) \<Rightarrow> validateCardExpiry L month year)
           \<and> length v = 3 \<and> validateCardCVC L v))"
proof -
  have d: "data (state (run L evs)) = models (run L evs)"
    by (simp add: run_synced setData_def)
  have "\<not> any_invalid (validate L (models (run L evs)))"
    if "\<not> submit_disabled (state (run L evs)) loading"
    using that by (simp add: submit_disabled_def run_synced setData_def)
  then show ?thesis
    using valid_fields [of L "models (run L evs)"] by (simp add: onSubmit_def d)
qed

theorem submit_passes_snapshot_witness:
  "\<not> submit_disabled (state (run sample_libs typing)) False
   \<and> calls (handle sample_libs (run sample_libs typing) SubmitForm) =
       calls (run sample_libs typing) @ [PreventDefault, OnSuccess filled]
   \<and> (\<exists>e n x v.
         filled = \<lparr>email = Some e, card_number = Some n, card_expire = Some x, cvv = Some v\<rparr>
         \<and> isEmail sample_libs e \<and> validateCardNumber sample_libs n
         \<and> length v = 3 \<and> validateCardCVC sample_libs v)"
proof -
  have d: "data (state (run sample_libs typing)) = filled"
    by (simp add: run_synced setData_def sample_models)
  have h: "\<not> submit_disabled (state (run sample_libs typing)) False"
    by (simp add: submit_disabled_def run_synced setData_def sample_models sample_filled_valid)
  from submit_passes_snapshot [of sample_libs typing False] h d show ?thesis
    by auto
qed

text \<open>
  C3. In every state the component can reach, the submit button is disabled whenever the
  any-invalid flag or \<^verbatim>\<open>loading\<close> is true, the flag is that of the validator's error
  lists, and the flag of a validation result is true iff some field has an error.
\<close>

theorem submit_gate:
  "(auto_invalid (state (run L evs)) \<or> loading \<longrightarrow> submit_disabled (state (run L evs)) loading)
   \<and> auto_invalid (state (run L evs)) = any_invalid (errors (state (run L evs)))
   \<and> any_invalid r = (\<exists>f. r f \<noteq> [])"
proof -
  have "auto_invalid (state (run L evs)) = any_invalid (errors (state (run L evs)))"
    by (simp add: run_synced setData_def)
  then show ?thesis by (simp add: submit_disabled_def any_invalid_iff)
qed

theorem submit_gate_witness:
  "auto_invalid (state (run sample_libs [ChangeCvv ''12'']))
   \<and> submit_disabled (state (run sample_libs [ChangeCvv ''12''])) False"
proof -
  have "cvv (models (run sample_libs [ChangeCvv ''12''])) = Some ''12''"
    by (simp add: run_def sync_def)
  then have "validate sample_libs (models (run sample_libs [ChangeCvv ''12''])) Cvv \<noteq> []"
    by (simp add: validate_def cvv_errors_Nil)
  then have "auto_invalid (state (run sample_libs [ChangeCvv ''12'']))"
    by (simp add: run_synced setData_def rejected_invalid)
  then show ?thesis
    using submit_gate [of sample_libs "[ChangeCvv ''12'']" False] by simp
qed

text \<open>
  C4. The claim: every non-null cvv whose length is not 3 has \<open>Maximum 3 digits\<close> among its
  errors. The empty string is non-null and of length 0, and Joi rejects it as
  \<^verbatim>\<open>string.empty\<close> before any rule runs: its only error is \<open>Required\<close>.
\<close>

theorem cvv_empty_counterexample:
  "length ('''' :: string) \<noteq> 3
   \<and> validate sample_libs (defaultState\<lparr>cvv := Some ''''\<rparr>) Cvv = [''Required'']
   \<and> ''Maximum 3 digits'' \<notin> set (validate sample_libs (defaultState\<lparr>cvv := Some ''''\<rparr>) Cvv)"
  by (simp add: validate_def cvv_errors_def string_required_def js_of_def message_def
      cvv_messages_def)

text \<open>
  C4, as amended. Every non-empty cvv whose length is not 3 has \<open>Maximum 3 digits\<close> among
  its errors, with or without \<^verbatim>\<open>abortEarly\<close> (the length rule is the field's first); the
  any-invalid flag is then true and the submit button disabled, whatever the other fields
  hold.
\<close>

theorem cvv_length_error:
  assumes "s \<noteq> []" and "length s \<noteq> 3" and "cvv d = Some s"
  shows "''Maximum 3 digits'' \<in> set (validate L d Cvv)
     \<and> any_invalid (validate L d)
     \<and> auto_invalid (setData L d)
     \<and> submit_disabled (setData L d) loading"
proof -
  have m: "''Maximum 3 digits'' \<in> set (validate L d Cvv)"
    using assms
    by (simp add: validate_def cvv_errors_def string_required_def js_of_def message_def
        cvv_messages_def)
  then have "validate L d Cvv \<noteq> []" by auto
  then have "any_invalid (validate L d)" by (rule rejected_invalid)
  with m show ?thesis by (simp add: setData_def submit_disabled_def)
qed

theorem cvv_length_error_witness:
  "''Maximum 3 digits'' \<in> set (validate sample_libs (defaultState\<lparr>cvv := Some ''12''\<rparr>) Cvv)
   \<and> any_invalid (validate sample_libs (defaultState\<lparr>cvv := Some ''12''\<rparr>))
   \<and> submit_disabled (setData sample_libs (defaultState\<lparr>cvv := Some ''12''\<rparr>)) False"
  using cvv_length_error [of "''12''" "defaultState\<lparr>cvv := Some ''12''\<rparr>" sample_libs False]
  by simp

text \<open>
  C7. The digits of \<open>formatCardNumber x\<close> are the first 16 digits of \<open>x\<close>, in their order;
  every other character of the result is a space, and the spaces stand exactly at the
  positions 4, 9, 14, ..., that is after each group of four digits that another digit
  follows. The spec's example evaluates as stated.
\<close>

theorem formatCardNumber_groups:
  "filter isDigit (formatCardNumber x) = take 16 (filter isDigit x)
   \<and> length (filter isDigit (formatCardNumber x)) \<le> 16
   \<and> (\<forall>c \<in> set (formatCardNumber x). isDigit c \<or> c = CHR '' '')
   \<and> (\<forall>i < length (formatCardNumber x). (formatCardNumber x ! i = CHR '' '') = (i mod 5 = 4))
   \<and> formatCardNumber ''4111111111111111'' = ''4111 1111 1111 1111''"
proof -
  have dig: "list_all isDigit (take 16 (filter isDigit x))"
    by (auto simp: list_all_iff dest: in_set_takeD)
  have 1: "filter isDigit (formatCardNumber x) = take 16 (filter isDigit x)"
    by (rule digits_formatCardNumber)
  have 2: "length (filter isDigit (formatCardNumber x)) \<le> 16"
    unfolding 1 by simp
  have 3: "\<forall>c \<in> set (formatCardNumber x). isDigit c \<or> c = CHR '' ''"
    using group4_chars [OF dig] by (simp add: formatCardNumber_def)
  have 4: "\<forall>i < length (formatCardNumber x).
             (formatCardNumber x ! i = CHR '' '') = (i mod 5 = 4)"
    using group4_space [OF dig] by (simp add: formatCardNumber_def)
  have 5: "formatCardNumber ''4111111111111111'' = ''4111 1111 1111 1111''"
    by (simp add: formatCardNumber_def isDigit_def)
  from 1 2 3 4 5 show ?thesis by (intro conjI)
qed

theorem formatCardNumber_groups_witness:
  "filter isDigit (formatCardNumber ''4111-1111 1111x11112222'') = ''4111111111111111''
   \<and> formatCardNumber ''4111-1111 1111x11112222'' ! 4 = CHR '' ''
   \<and> formatCardNumber ''4111-1111 1111x11112222'' ! 5 \<noteq> CHR '' ''"
proof -
  have len: "(4::nat) < length (formatCardNumber ''4111-1111 1111x11112222'')"
    "(5::nat) < length (formatCardNumber ''4111-1111 1111x11112222'')"
    by (simp_all add: sample_format)
  have "filter isDigit ''4111-1111 1111x11112222'' = ''41111111111111112222''"
    by (simp add: isDigit_def)
  with formatCardNumber_groups [of "''4111-1111 1111x11112222''"] len show ?thesis
    by simp
qed

text \<open>C8. Formatting a formatted card number changes nothing.\<close>

theorem formatCardNumber_idempotent:
  "formatCardNumber (formatCardNumber x) = formatCardNumber x"
proof -
  have "filter isDigit (formatCardNumber x) = take 16 (filter isDigit x)"
    by (rule digits_formatCardNumber)
  then have "formatCardNumber (formatCardNumber x) = group4 (take 16 (take 16 (filter isDigit x)))"
    by (simp only: formatCardNumber_def)
  then show ?thesis by (simp add: formatCardNumber_def)
qed

theorem formatCardNumber_idempotent_witness:
  "formatCardNumber (formatCardNumber ''4111-1111 1111x11112222'') = ''4111 1111 1111 1111''"
  using formatCardNumber_idempotent [of "''4111-1111 1111x11112222''"]
  by (simp only: sample_format)

text \<open>
  C9. \<open>parseCardType\<close> answers Visa exactly for the strings that start with 4, Mastercard
  exactly for the strings that start with two digits within 51 to 55 or with four digits
  within 2221 to 2720, and Unknown for everything else, the empty string and null among
  them. The spec's examples evaluate as stated.
\<close>

theorem parseCardType_brands:
  "(parseCardType v = Visa) = (\<exists>r. v = Str (CHR ''4'' # r))
   \<and> (parseCardType v = Mastercard) =
       (\<exists>p r. v = Str (p @ r) \<and> list_all isDigit p \<and>
          (length p = 2 \<and> 51 \<le> decimal p \<and> decimal p \<le> 55 \<or>
           length p = 4 \<and> 2221 \<le> decimal p \<and> decimal p \<le> 2720))
   \<and> (parseCardType v = Unknown) =
       (\<not> (\<exists>r. v = Str (CHR ''4'' # r)) \<and>
        \<not> (\<exists>p r. v = Str (p @ r) \<and> list_all isDigit p \<and>
          (length p = 2 \<and> 51 \<le> decimal p \<and> decimal p \<le> 55 \<or>
           length p = 4 \<and> 2221 \<le> decimal p \<and> decimal p \<le> 2720)))
   \<and> parseCardType (Str ''4111111111111111'') = Visa
   \<and> parseCardType (Str ''5500000000000004'') = Mastercard
   \<and> parseCardType (Str '''') = Unknown
   \<and> parseCardType Null = Unknown"
proof -
  let ?V = "\<exists>r. v = Str (CHR ''4'' # r)"
  let ?M = "\<exists>p r. v = Str (p @ r) \<and> list_all isDigit p \<and>
          (length p = 2 \<and> 51 \<le> decimal p \<and> decimal p \<le> 55 \<or>
           length p = 4 \<and> 2221 \<le> decimal p \<and> decimal p \<le> 2720)"
  have V: "(parseCardType v = Visa) = ?V" by (rule parse_visa)
  have M: "(parseCardType v = Mastercard) = ?M"
  proof
    assume "parseCardType v = Mastercard"
    then show ?M by (rule parse_mc_elim)
  next
    assume ?M
    then obtain p r where "v = Str (p @ r)" "list_all isDigit p"
      "length p = 2 \<and> 51 \<le> decimal p \<and> decimal p \<le> 55 \<or>
       length p = 4 \<and> 2221 \<le> decimal p \<and> decimal p \<le> 2720"
      by blast
    then show "parseCardType v = Mastercard"
      using parse_mc_intro2 [of p r] parse_mc_intro4 [of p r] by auto
  qed
  have U: "(parseCardType v = Unknown) = (\<not> ?V \<and> \<not> ?M)"
    unfolding V [symmetric] M [symmetric] by (cases "parseCardType v") simp_all
  have ex: "parseCardType (Str ''4111111111111111'') = Visa"
    "parseCardType (Str ''5500000000000004'') = Mastercard"
    "parseCardType (Str '''') = Unknown" "parseCardType Null = Unknown"
    by (simp_all add: parseCardType_def leadingNumber_def isDigit_def digitVal_def decimal_def)
  from V M U ex show ?thesis by (intro conjI)
qed

theorem parseCardType_brands_witness:
  "parseCardType (Str ''2720 9900 0000 0007'') = Mastercard
   \<and> parseCardType (Str ''4'') = Visa
   \<and> parseCardType (Str ''2721000000000000'') = Unknown"
proof -
  have a: "list_all isDigit ''2720'' \<and> length ''2720'' = 4 \<and> decimal ''2720'' = 2720"
    by (simp add: isDigit_def decimal_def digitVal_def)
  have b: "parseCardType (Str ''2721000000000000'') = Unknown"
    by (simp add: parseCardType_def leadingNumber_def isDigit_def digitVal_def decimal_def)
  have "\<exists>p r. Str ''2720 9900 0000 0007'' = Str (p @ r) \<and> list_all isDigit p \<and>
          (length p = 2 \<and> 51 \<le> decimal p \<and> decimal p \<le> 55 \<or>
           length p = 4 \<and> 2221 \<le> decimal p \<and> decimal p \<le> 2720)"
    using a by (intro exI [of _ "''2720''"] exI [of _ "'' 9900 0000 0007''"]) simp
  then have "parseCardType (Str ''2720 9900 0000 0007'') = Mastercard"
    using parseCardType_brands [of "Str ''2720 9900 0000 0007''"] by blast
  moreover have "parseCardType (Str ''4'') = Visa"
    using parseCardType_brands [of "Str ''4''"] by blast
  ultimately show ?thesis using b by simp
qed

text \<open>
  C10. A cvv of three characters that passes the CVC check has no error, leading zeros or
  not: the field is accepted exactly when the string has three characters and passes the
  check, and the schema never reads the string as a number.
\<close>

theorem cvv_string_accepted:
  assumes "length s = 3" and "validateCardCVC L s" and "cvv d = Some s"
  shows "validate L d Cvv = []
     \<and> (\<forall>t. (cvv_errors L (Some t) = []) = (length t = 3 \<and> validateCardCVC L t))"
  using assms by (simp add: validate_def cvv_errors_Nil)

theorem cvv_string_accepted_witness:
  "validateCardCVC sample_libs ''012''
   \<and> validate sample_libs (defaultState\<lparr>cvv := Some ''012''\<rparr>) Cvv = []"
  using cvv_string_accepted [of "''012''" sample_libs "defaultState\<lparr>cvv := Some ''012''\<rparr>"]
    sample_cvc_012
  by simp

end
